theory Spec2Isabelle
  imports Complex_Main
begin

section \<open>Filler-aware interruption handler\<close>

text \<open>
  A shallow embedding of \<^verbatim>\<open>livekit_agents_extensions/filler_interrupt_handler.py\<close> and of
  the part of \<^verbatim>\<open>examples/other/transcription/multi-user-transcriber.py\<close> that wires the
  handler into a participant session.

  Conventions of the embedding:
  \<^item> a Python \<^verbatim>\<open>str\<close> is a \<^typ>\<open>string\<close> whose characters are the code points 0 to
    255; on that range whitespace, word characters and lower case are those of Python's
    \<^verbatim>\<open>str.isspace\<close>, \<^verbatim>\<open>\w\<close> under \<^verbatim>\<open>re.UNICODE\<close> and \<^verbatim>\<open>str.lower\<close>; text with
    code points above 255 is outside the embedding;
  \<^item> a Python \<^verbatim>\<open>float\<close> is a \<^typ>\<open>real\<close>: rounding inside \<^verbatim>\<open>sum(...) / len(...)\<close> is not
    modelled, comparisons are exact as they are on floats;
  \<^item> logging has no effect on the values the handler computes and is left out;
  \<^item> a callable that may raise returns \<open>(Some e, s')\<close> for the exception \<open>e\<close>, and
    \<open>(None, s')\<close> when it returns normally, with the program state it leaves behind.
\<close>

subsection \<open>Text normalisation and tokenisation\<close>

text \<open>
  The code points below 256 for which \<^verbatim>\<open>str.isspace\<close> holds; \<^verbatim>\<open>strip\<close> and
  \<^verbatim>\<open>split\<close> use them. Beside the ASCII ones they are U+0085 and U+00A0.
\<close>

definition is_space :: "char \<Rightarrow> bool" where
  "is_space c \<longleftrightarrow>
     (let n = (of_char c :: nat)
      in (9 \<le> n \<and> n \<le> 13) \<or> (28 \<le> n \<and> n \<le> 32) \<or> n = 133 \<or> n = 160)"

text \<open>
  The code points below 256 matched by \<^verbatim>\<open>\w\<close> under \<^verbatim>\<open>re.UNICODE\<close>: the underscore and
  every character for which \<^verbatim>\<open>str.isalnum\<close> holds. Beyond ASCII these are the ordinal
  indicators, the superscript digits, the micro sign, the vulgar fractions and the Latin-1
  letters (U+00D7 and U+00F7 are signs, not letters).
\<close>

definition is_word_char :: "char \<Rightarrow> bool" where
  "is_word_char c \<longleftrightarrow>
     (let n = (of_char c :: nat)
      in (48 \<le> n \<and> n \<le> 57) \<or> (65 \<le> n \<and> n \<le> 90) \<or> n = 95 \<or> (97 \<le> n \<and> n \<le> 122)
         \<or> n = 170 \<or> (178 \<le> n \<and> n \<le> 179) \<or> n = 181 \<or> (185 \<le> n \<and> n \<le> 186)
         \<or> (188 \<le> n \<and> n \<le> 190) \<or> (192 \<le> n \<and> n \<le> 214) \<or> (216 \<le> n \<and> n \<le> 246)
         \<or> (248 \<le> n \<and> n \<le> 255))"

text \<open>The characters that \<^verbatim>\<open>_TOKEN_RE = [^\w']+\<close> does not match.\<close>

definition token_char :: "char \<Rightarrow> bool" where
  "token_char c \<longleftrightarrow> is_word_char c \<or> c = CHR 0x27"

text \<open>
  \<^verbatim>\<open>str.lower\<close> on one code point below 256: the capitals A to Z and U+00C0 to U+00DE
  (without the sign U+00D7) move up by 32, every other character stays.
\<close>

definition lower_char :: "char \<Rightarrow> char" where
  "lower_char c =
     (let n = (of_char c :: nat)
      in if (65 \<le> n \<and> n \<le> 90) \<or> (192 \<le> n \<and> n \<le> 222 \<and> n \<noteq> 215)
         then char_of (n + 32) else c)"

definition lower_str :: "string \<Rightarrow> string" where
  "lower_str s = map lower_char s"

text \<open>\<^verbatim>\<open>_TOKEN_RE.sub(" ", text)\<close>: every maximal run of non-token characters becomes one space.\<close>

function sub_token_re :: "string \<Rightarrow> string" where
  "sub_token_re [] = []"
| "sub_token_re (c # cs) =
     (if token_char c then c # sub_token_re cs
      else CHR '' '' # sub_token_re (dropWhile (\<lambda>x. \<not> token_char x) cs))"
  by pat_completeness auto
termination
  by (relation "measure length") (auto simp: le_imp_less_Suc length_dropWhile_le)

text \<open>\<^verbatim>\<open>str.strip()\<close>: whitespace removed at both ends.\<close>

definition strip :: "string \<Rightarrow> string" where
  "strip s = rev (dropWhile is_space (rev (dropWhile is_space s)))"

text \<open>\<^verbatim>\<open>str.split()\<close>: the maximal runs of non-whitespace characters.\<close>

function split_ws :: "string \<Rightarrow> string list" where
  "split_ws [] = []"
| "split_ws (c # cs) =
     (if is_space c then split_ws cs
      else takeWhile (\<lambda>x. \<not> is_space x) (c # cs)
             # split_ws (dropWhile (\<lambda>x. \<not> is_space x) cs))"
  by pat_completeness auto
termination
  by (relation "measure length") (auto simp: le_imp_less_Suc length_dropWhile_le)

definition normalize_text :: "string \<Rightarrow> string" where
  "normalize_text text = lower_str (strip (sub_token_re text))"

definition tokenize :: "string \<Rightarrow> string list" where
  "tokenize text = filter (\<lambda>t. t \<noteq> []) (split_ws (normalize_text text))"

subsection \<open>Values, exceptions and callbacks\<close>

text \<open>The values stored in the metadata dictionaries handed to callbacks.\<close>

datatype pyval = PStr string | PNum real | PStrList "string list"

type_synonym pydict = "string \<rightharpoonup> pyval"

datatype py_exception = PyException string

text \<open>
  A callback \<^verbatim>\<open>cb(text, metadata)\<close> is arbitrary code of the host program: it runs on the
  host's state \<open>'s\<close> and returns normally or raises.
\<close>

type_synonym 's callback = "string \<Rightarrow> pydict \<Rightarrow> 's \<Rightarrow> py_exception option \<times> 's"

text \<open>The dictionary \<^verbatim>\<open>self._callbacks\<close>, with its three fixed keys.\<close>

record 's callbacks =
  valid_interruption :: "'s callback list"
  ignored_filler :: "'s callback list"
  speech_registered :: "'s callback list"

definition no_callbacks :: "'s callbacks" where
  "no_callbacks = \<lparr>valid_interruption = [], ignored_filler = [], speech_registered = []\<rparr>"

definition on_valid_interruption :: "'s callback \<Rightarrow> 's callbacks \<Rightarrow> 's callbacks" where
  "on_valid_interruption cb r = r\<lparr>valid_interruption := valid_interruption r @ [cb]\<rparr>"

definition on_ignored_filler :: "'s callback \<Rightarrow> 's callbacks \<Rightarrow> 's callbacks" where
  "on_ignored_filler cb r = r\<lparr>ignored_filler := ignored_filler r @ [cb]\<rparr>"

definition on_speech_registered :: "'s callback \<Rightarrow> 's callbacks \<Rightarrow> 's callbacks" where
  "on_speech_registered cb r = r\<lparr>speech_registered := speech_registered r @ [cb]\<rparr>"

text \<open>
  The loop \<^verbatim>\<open>for cb in self._callbacks[key]: cb(text, {...})\<close>. There is no
  \<^verbatim>\<open>try\<close> around the call: the first exception leaves the loop and the method.
\<close>

fun invoke_all :: "'s callback list \<Rightarrow> string \<Rightarrow> pydict \<Rightarrow> 's \<Rightarrow> py_exception option \<times> 's" where
  "invoke_all [] text d s = (None, s)"
| "invoke_all (cb # cbs) text d s =
     (case cb text d s of
        (Some e, s') \<Rightarrow> (Some e, s')
      | (None, s') \<Rightarrow> invoke_all cbs text d s')"

subsection \<open>The handler\<close>

definition DEFAULT_IGNORED_WORDS :: "string set" where
  "DEFAULT_IGNORED_WORDS =
     {''uh'', ''umm'', ''hmm'', ''haan'', ''uhh'', ''uhm'', ''erm'', ''ah'', ''mm'', ''mmh'',
      ''mhmm''}"

definition DEFAULT_FORCE_STOP_WORDS :: "string set" where
  "DEFAULT_FORCE_STOP_WORDS =
     {''stop'', ''wait'', ''hold'', ''pause'', ''no'', ''halt'', ''end'', ''shut up'',
      ''be quiet''}"

text \<open>
  An argument of type \<^verbatim>\<open>Iterable[str]\<close>. A sized container (list, tuple, set) is falsy
  exactly when it is empty; an iterator object (a generator, \<^verbatim>\<open>map\<close>, \<^verbatim>\<open>filter\<close>,
  \<^verbatim>\<open>iter(...)\<close>) has neither \<^verbatim>\<open>__len__\<close> nor \<^verbatim>\<open>__bool__\<close> and is always truthy.
\<close>

datatype str_iterable = Container "string list" | Iterator "string list"

fun truthy :: "str_iterable \<Rightarrow> bool" where
  "truthy (Container xs) = (xs \<noteq> [])"
| "truthy (Iterator xs) = True"

fun items :: "str_iterable \<Rightarrow> string list" where
  "items (Container xs) = xs"
| "items (Iterator xs) = xs"

text \<open>\<^verbatim>\<open>set(w.lower() for w in (arg or default))\<close>\<close>

definition lowered_or_default :: "str_iterable option \<Rightarrow> string set \<Rightarrow> string set" where
  "lowered_or_default arg dflt =
     lower_str ` (case arg of
                    None \<Rightarrow> dflt
                  | Some it \<Rightarrow> if truthy it then set (items it) else dflt)"

text \<open>The data attributes of a \<^verbatim>\<open>FillerInterruptHandler\<close>.\<close>

record handler =
  ignored_words :: "string set"
  force_stop_words :: "string set"
  min_confidence_to_consider :: real
  ignore_if_confidence_below :: real
  agent_speaking :: bool

text \<open>
  \<^verbatim>\<open>__init__\<close>. The thresholds go through \<^verbatim>\<open>float(...)\<close> and nothing else; the body
  has no \<^verbatim>\<open>raise\<close>, so the only result is a handler.
\<close>

definition init ::
  "str_iterable option \<Rightarrow> str_iterable option \<Rightarrow> real \<Rightarrow> real \<Rightarrow> py_exception + handler" where
  "init ignored_words_arg force_stop_words_arg min_conf ignore_below =
     Inr \<lparr>ignored_words = lowered_or_default ignored_words_arg DEFAULT_IGNORED_WORDS,
          force_stop_words = lowered_or_default force_stop_words_arg DEFAULT_FORCE_STOP_WORDS,
          min_confidence_to_consider = min_conf,
          ignore_if_confidence_below = ignore_below,
          agent_speaking = False\<rparr>"



definition set_agent_speaking :: "bool \<Rightarrow> handler \<Rightarrow> handler" where
  "set_agent_speaking speaking h = h\<lparr>agent_speaking := speaking\<rparr>"

subsection \<open>Confidence\<close>

text \<open>
  An element of the \<^verbatim>\<open>words\<close> argument: a dict, reduced to what is stored under
  \<^verbatim>\<open>"confidence"\<close> (a number, or nothing when the key is absent), or any other object.
\<close>

datatype word_item = WordDict "real option" | NotADict

text \<open>\<^verbatim>\<open>[w.get("confidence", 1.0) for w in words if isinstance(w, dict)]\<close>\<close>

fun confidences :: "word_item list \<Rightarrow> real list" where
  "confidences [] = []"
| "confidences (WordDict (Some c) # ws) = c # confidences ws"
| "confidences (WordDict None # ws) = 1 # confidences ws"
| "confidences (NotADict # ws) = confidences ws"

text \<open>Lines 108 to 112 of the handler: the value bound to \<^verbatim>\<open>avg_conf\<close>.\<close>

definition avg_conf :: "real option \<Rightarrow> word_item list option \<Rightarrow> real" where
  "avg_conf confidence words =
     (let a = (case confidence of Some c \<Rightarrow> c | None \<Rightarrow> 1)
      in case words of
           None \<Rightarrow> a
         | Some ws \<Rightarrow>
             if ws \<noteq> [] then
               (let cs = confidences ws
                in if cs \<noteq> [] then sum_list cs / real (length cs) else a)
             else a)"

subsection \<open>The decision\<close>

text \<open>\<^verbatim>\<open>metadata or {}\<close>\<close>

definition or_empty :: "pydict option \<Rightarrow> pydict" where
  "or_empty metadata = (case metadata of None \<Rightarrow> Map.empty | Some m \<Rightarrow> m)"

text \<open>
  \<^verbatim>\<open>handle_transcript\<close>. The handler \<open>h\<close> is the value of the attributes of \<^verbatim>\<open>self\<close>
  when the method reads them; every read comes before the first callback of the branch
  taken. The text is a \<^verbatim>\<open>str\<close> (\<^verbatim>\<open>None\<close> is treated like the empty string by
  \<^verbatim>\<open>text or ""\<close>). In each dictionary the caller's metadata is spread last, so its
  entries replace the handler's entries under the same key.
\<close>

definition handle_transcript ::
  "'s callbacks \<Rightarrow> handler \<Rightarrow> string \<Rightarrow> real option \<Rightarrow> word_item list option \<Rightarrow>
     pydict option \<Rightarrow> 's \<Rightarrow> py_exception option \<times> 's" where
  "handle_transcript r h text0 confidence words metadata0 s =
     (let metadata = or_empty metadata0;
          text = strip text0
      in if text = [] then (None, s)
         else
           let tokens = tokenize text;
               a = avg_conf confidence words
           in if agent_speaking h then
                if a < ignore_if_confidence_below h then
                  invoke_all (ignored_filler r) text
                    ([''reason'' \<mapsto> PStr ''low_confidence'', ''avg_conf'' \<mapsto> PNum a]
                       ++ metadata) s
                else if list_ex (\<lambda>t. t \<in> force_stop_words h) tokens then
                  invoke_all (valid_interruption r) text
                    ([''reason'' \<mapsto> PStr ''force_stop_word'', ''avg_conf'' \<mapsto> PNum a]
                       ++ metadata) s
                else
                  let non_ignored_tokens = filter (\<lambda>t. t \<notin> ignored_words h) tokens
                  in if non_ignored_tokens = [] then
                       invoke_all (ignored_filler r) text
                         ([''reason'' \<mapsto> PStr ''filler_only'', ''avg_conf'' \<mapsto> PNum a]
                            ++ metadata) s
                     else
                       invoke_all (valid_interruption r) text
                         ([''reason'' \<mapsto> PStr ''mixed_tokens'',
                           ''non_ignored'' \<mapsto> PStrList non_ignored_tokens,
                           ''avg_conf'' \<mapsto> PNum a]
                            ++ metadata) s
              else
                invoke_all (speech_registered r) text
                  ([''reason'' \<mapsto> PStr ''agent_quiet'', ''avg_conf'' \<mapsto> PNum a]
                     ++ metadata) s)"

text \<open>
  The branch \<^verbatim>\<open>handle_transcript\<close> takes, read off its \<^verbatim>\<open>if\<close> chain: the key of
  \<^verbatim>\<open>self._callbacks\<close> it iterates over and the dictionary it builds, or nothing when the
  stripped text is empty. Lemma \<open>handle_transcript_reaction\<close> below shows that the method is
  the dispatch of this reaction.
\<close>

datatype category = ValidInterruption | IgnoredFiller | SpeechRegistered

fun registered :: "'s callbacks \<Rightarrow> category \<Rightarrow> 's callback list" where
  "registered r ValidInterruption = valid_interruption r"
| "registered r IgnoredFiller = ignored_filler r"
| "registered r SpeechRegistered = speech_registered r"

definition reaction_of ::
  "handler \<Rightarrow> string \<Rightarrow> real option \<Rightarrow> word_item list option \<Rightarrow> pydict option \<Rightarrow>
     (category \<times> pydict) option" where
  "reaction_of h text0 confidence words metadata0 =
     (let metadata = or_empty metadata0;
          tokens = tokenize (strip text0);
          a = avg_conf confidence words;
          non_ignored_tokens = filter (\<lambda>t. t \<notin> ignored_words h) tokens
      in if strip text0 = [] then None
         else if \<not> agent_speaking h then
           Some (SpeechRegistered,
                 [''reason'' \<mapsto> PStr ''agent_quiet'', ''avg_conf'' \<mapsto> PNum a] ++ metadata)
         else if a < ignore_if_confidence_below h then
           Some (IgnoredFiller,
                 [''reason'' \<mapsto> PStr ''low_confidence'', ''avg_conf'' \<mapsto> PNum a] ++ metadata)
         else if list_ex (\<lambda>t. t \<in> force_stop_words h) tokens then
           Some (ValidInterruption,
                 [''reason'' \<mapsto> PStr ''force_stop_word'', ''avg_conf'' \<mapsto> PNum a] ++ metadata)
         else if non_ignored_tokens = [] then
           Some (IgnoredFiller,
                 [''reason'' \<mapsto> PStr ''filler_only'', ''avg_conf'' \<mapsto> PNum a] ++ metadata)
         else
           Some (ValidInterruption,
                 [''reason'' \<mapsto> PStr ''mixed_tokens'',
                  ''non_ignored'' \<mapsto> PStrList non_ignored_tokens,
                  ''avg_conf'' \<mapsto> PNum a] ++ metadata))"

subsection \<open>The session wiring of the multi-user transcriber\<close>

text \<open>
  Of a \<^verbatim>\<open>Transcriber\<close> agent only the identity and the flag \<^verbatim>\<open>_is_speaking\<close> matter
  here. A session holds the participant's handler and the controller's \<^verbatim>\<open>_agents\<close> map.
\<close>

record transcriber =
  participant_identity :: string
  is_speaking :: bool

record session =
  handler_state :: handler
  agents :: "string \<rightharpoonup> transcriber"

text \<open>\<^verbatim>\<open>Transcriber.stop_speaking\<close>: one assignment and a log line.\<close>

definition stop_speaking :: "transcriber \<Rightarrow> transcriber" where
  "stop_speaking a = a\<lparr>is_speaking := False\<rparr>"

text \<open>The body of the coroutine \<^verbatim>\<open>MultiUserTranscriber._handle_interruption\<close>.\<close>

definition handle_interruption :: "string \<Rightarrow> string \<Rightarrow> pydict \<Rightarrow> session \<Rightarrow> session" where
  "handle_interruption ident text meta s =
     (case agents s ident of
        Some a \<Rightarrow> s\<lparr>agents := (agents s)(ident \<mapsto> stop_speaking a)\<rparr>
      | None \<Rightarrow> s)"

text \<open>
  The callback \<^verbatim>\<open>lambda t, m: self._handle_interruption(participant.identity, t, m)\<close>.
  Calling an \<^verbatim>\<open>async def\<close> builds a coroutine object and runs none of its body; the
  lambda returns that object, \<^verbatim>\<open>handle_transcript\<close> drops it, and nothing awaits it.
\<close>

definition interruption_lambda :: "string \<Rightarrow> session callback" where
  "interruption_lambda ident text meta s = (None, s)"

text \<open>The two \<^verbatim>\<open>logger.debug\<close> lambdas.\<close>

definition debug_lambda :: "session callback" where
  "debug_lambda text meta s = (None, s)"

definition session_callbacks :: "string \<Rightarrow> session callbacks" where
  "session_callbacks ident =
     on_speech_registered debug_lambda
       (on_ignored_filler debug_lambda
          (on_valid_interruption (interruption_lambda ident) no_callbacks))"

text \<open>The handler \<^verbatim>\<open>_start_session\<close> constructs, as \<open>init_session_handler\<close> confirms.\<close>

definition session_handler :: handler where
  "session_handler =
     \<lparr>ignored_words = {''uh'', ''umm'', ''hmm'', ''haan'', ''uhh'', ''uhm''},
      force_stop_words =
        {''stop'', ''wait'', ''pause'', ''end'', ''terminate'', ''shut up'', ''be quiet'',
         ''halt''},
      min_confidence_to_consider = 1 / 2,
      ignore_if_confidence_below = 7 / 20,
      agent_speaking = False\<rparr>"

subsection \<open>The coroutines and their suspension points\<close>








subsection \<open>The average confidence as claim C6, amended, words it\<close>



subsection \<open>Handlers and callbacks for the examples\<close>

text \<open>
  A host whose state is a log: each callback appends its name and the \<^verbatim>\<open>"reason"\<close>
  (or, for \<open>log_conf_cb\<close>, the \<^verbatim>\<open>"avg_conf"\<close>) it was given, or raises.
\<close>

type_synonym log = "(string \<times> pyval option) list"

definition log_cb :: "string \<Rightarrow> log callback" where
  "log_cb name text d s = (None, s @ [(name, d ''reason'')])"


definition raising_cb :: "string \<Rightarrow> log callback" where
  "raising_cb msg text d s = (Some (PyException msg), s)"

definition logging_callbacks :: "log callbacks" where
  "logging_callbacks =
     \<lparr>valid_interruption = [log_cb ''valid_interruption''],
      ignored_filler = [log_cb ''ignored_filler''],
      speech_registered = [log_cb ''speech_registered'']\<rparr>"


definition faulty_callbacks :: "log callbacks" where
  "faulty_callbacks =
     \<lparr>valid_interruption = [],
      ignored_filler = [log_cb ''first'', raising_cb ''boom'', log_cb ''third''],
      speech_registered = [raising_cb ''boom'', log_cb ''second'']\<rparr>"

text \<open>A handler built with every default, once the agent has started to speak.\<close>

definition speaking_handler :: handler where
  "speaking_handler =
     \<lparr>ignored_words = DEFAULT_IGNORED_WORDS, force_stop_words = DEFAULT_FORCE_STOP_WORDS,
      min_confidence_to_consider = 1 / 2, ignore_if_confidence_below = 2 / 5,
      agent_speaking = True\<rparr>"

text \<open>A session in which the agent of participant \<^verbatim>\<open>alice\<close> is speaking.\<close>

definition speaking_session :: session where
  "speaking_session =
     \<lparr>handler_state = set_agent_speaking True session_handler,
      agents = [''alice'' \<mapsto> \<lparr>participant_identity = ''alice'', is_speaking = True\<rparr>]\<rparr>"

section \<open>Properties\<close>

subsection \<open>Supporting lemmas\<close>

lemma lower_default_ignored: "lower_str ` DEFAULT_IGNORED_WORDS = DEFAULT_IGNORED_WORDS"
  by (simp add: DEFAULT_IGNORED_WORDS_def lower_str_def lower_char_def)

lemma lower_default_force_stop:
  "lower_str ` DEFAULT_FORCE_STOP_WORDS = DEFAULT_FORCE_STOP_WORDS"
  by (simp add: DEFAULT_FORCE_STOP_WORDS_def lower_str_def lower_char_def)

lemma init_defaults:
  "init None None (1 / 2) (2 / 5) = Inr (set_agent_speaking False speaking_handler)"
  by (simp add: init_def lowered_or_default_def speaking_handler_def set_agent_speaking_def
      lower_default_ignored lower_default_force_stop)

lemma init_session_handler:
  "init (Some (Container [''uh'', ''umm'', ''hmm'', ''haan'', ''uhh'', ''uhm'']))
        (Some (Container [''stop'', ''wait'', ''pause'', ''end'', ''terminate'', ''shut up'',
                          ''be quiet'', ''halt'']))
        (1 / 2) (7 / 20) = Inr session_handler"
  by (simp add: init_def lowered_or_default_def session_handler_def lower_str_def
      lower_char_def)

lemma tokenize_Nil: "tokenize [] = []"
  by (simp add: tokenize_def normalize_text_def lower_str_def strip_def)

lemma handle_transcript_reaction:
  "handle_transcript r h text confidence words metadata s =
     (case reaction_of h text confidence words metadata of
        None \<Rightarrow> (None, s)
      | Some (k, d) \<Rightarrow> invoke_all (registered r k) (strip text) d s)"
  by (simp add: handle_transcript_def reaction_of_def Let_def)




lemma invoke_all_append:
  "invoke_all (xs @ ys) t d s =
     (case invoke_all xs t d s of
        (Some e, s') \<Rightarrow> (Some e, s')
      | (None, s') \<Rightarrow> invoke_all ys t d s')"
  by (induction xs arbitrary: s) (auto split: prod.splits option.splits)

text \<open>No token holds a whitespace character, so no token is a phrase of several words.\<close>

lemma split_ws_no_space: "t \<in> set (split_ws s) \<Longrightarrow> c \<in> set t \<Longrightarrow> \<not> is_space c"
proof (induction s arbitrary: t rule: split_ws.induct)
  case 1
  then show ?case by simp
next
  case (2 x xs)
  then show ?case
    by (auto split: if_splits dest: set_takeWhileD)
qed

lemma tokenize_no_space: "t \<in> set (tokenize text) \<Longrightarrow> CHR '' '' \<notin> set t"
proof
  assume a: "t \<in> set (tokenize text)" and b: "CHR '' '' \<in> set t"
  from a have "t \<in> set (split_ws (normalize_text text))"
    by (simp add: tokenize_def)
  from split_ws_no_space [OF this b] show False
    by (simp add: is_space_def)
qed

lemma phrase_never_matches:
  "\<forall>p \<in> ws. CHR '' '' \<in> set p \<Longrightarrow> \<not> list_ex (\<lambda>t. t \<in> ws) (tokenize text)"
  by (auto simp: list_ex_iff dest: tokenize_no_space)

text \<open>The texts of the examples, stripped and tokenised.\<close>

lemma strip_examples:
  "strip ''stop'' = ''stop''"
  "strip ''Umm, STOP umm!'' = ''Umm, STOP umm!''"
  "strip ''shut up'' = ''shut up''"
  "strip ''   '' = []"
  "strip ''uh umm'' = ''uh umm''"
  "strip '' uh I need help '' = ''uh I need help''"
  "strip ''hello'' = ''hello''"
  by code_simp+


lemma tokenize_examples:
  "tokenize ''stop'' = [''stop'']"
  "tokenize ''Umm, STOP umm!'' = [''umm'', ''stop'', ''umm'']"
  "tokenize ''shut up'' = [''shut'', ''up'']"
  "tokenize ''uh umm'' = [''uh'', ''umm'']"
  "tokenize ''uh I need help'' = [''uh'', ''i'', ''need'', ''help'']"
  "tokenize ''hello'' = [''hello'']"
  by code_simp+

subsection \<open>Average confidence\<close>




subsection \<open>Construction\<close>

text \<open>
  Claim C7, as stated: a threshold outside the interval from 0 to 1 makes construction fail.
  It does not: with \<^verbatim>\<open>ignore_if_confidence_below = 1.5\<close> construction returns a handler
  that stores 1.5.
\<close>

theorem init_accepts_threshold_out_of_range:
  "\<not> ((0::real) \<le> 3 / 2 \<and> (3 / 2 :: real) \<le> 1)
   \<and> (case init None None (1 / 2) (3 / 2) of
         Inl e \<Rightarrow> False
       | Inr h \<Rightarrow> ignore_if_confidence_below h = 3 / 2)"
  by (simp add: init_def)

text \<open>
  Claim C7, amended. Construction checks no threshold: for all values of
  \<^verbatim>\<open>min_confidence_to_consider\<close> and \<^verbatim>\<open>ignore_if_confidence_below\<close>, inside the
  interval from 0 to 1 or not, it returns a handler, and the stored thresholds are the given
  values, never clamped.
\<close>

theorem init_stores_thresholds_unchecked:
  "\<exists>h. init ig fs m i = Inr h
        \<and> min_confidence_to_consider h = m \<and> ignore_if_confidence_below h = i"
  by (simp add: init_def)

theorem init_stores_thresholds_unchecked_witness:
  "\<exists>h. init None None (1 / 2) (- 2) = Inr h
        \<and> min_confidence_to_consider h = 1 / 2 \<and> ignore_if_confidence_below h = - 2"
  using init_stores_thresholds_unchecked [of None None "1 / 2" "- 2"] by simp

subsection \<open>Force-stop words\<close>

text \<open>
  Claim C1, as stated: while the agent speaks, a token that is a force-stop word always gives
  the valid-interruption reaction with reason \<^verbatim>\<open>force_stop_word\<close>. Two inputs show
  otherwise. The text \<^verbatim>\<open>stop\<close> with confidence 0.2, under the default floor 0.4, goes to
  the ignored-filler callbacks with reason \<^verbatim>\<open>low_confidence\<close>: the confidence test comes
  first. The same text at full confidence, with caller metadata that has its own
  \<^verbatim>\<open>"reason"\<close> entry, reaches the valid-interruption callbacks with the caller's reason.
\<close>

theorem force_stop_word_below_floor_or_overridden:
  "handle_transcript logging_callbacks speaking_handler ''stop'' (Some (1 / 5)) None None []
     = (None, [(''ignored_filler'', Some (PStr ''low_confidence''))])
   \<and> handle_transcript logging_callbacks speaking_handler ''stop'' None None
         (Some [''reason'' \<mapsto> PStr ''custom'']) []
     = (None, [(''valid_interruption'', Some (PStr ''custom''))])"
  by (simp add: handle_transcript_def Let_def strip_examples tokenize_examples
      logging_callbacks_def speaking_handler_def avg_conf_def or_empty_def log_cb_def
      DEFAULT_FORCE_STOP_WORDS_def)

text \<open>
  Claim C1, amended. While the agent is speaking and the average confidence is not below
  \<^verbatim>\<open>ignore_if_confidence_below\<close>: if any token of the text is a force-stop word, then
  \<^verbatim>\<open>handle_transcript\<close> runs the valid-interruption callbacks, and only those, on the
  stripped text and the dictionary \<^verbatim>\<open>{reason: force_stop_word, avg_conf, **metadata}\<close>,
  whatever the other tokens and the ignored words are. The dictionary gives
  \<^verbatim>\<open>force_stop_word\<close> as the reason whenever the caller's metadata has no
  \<^verbatim>\<open>"reason"\<close> entry of its own.
\<close>

theorem force_stop_word_interrupts_above_floor:
  assumes "agent_speaking h"
    and "\<not> avg_conf confidence words < ignore_if_confidence_below h"
    and "t \<in> set (tokenize (strip text))"
    and "t \<in> force_stop_words h"
  shows "handle_transcript r h text confidence words metadata s =
           invoke_all (valid_interruption r) (strip text)
             ([''reason'' \<mapsto> PStr ''force_stop_word'',
               ''avg_conf'' \<mapsto> PNum (avg_conf confidence words)] ++ or_empty metadata) s
         \<and> (''reason'' \<notin> dom (or_empty metadata) \<longrightarrow>
              ([''reason'' \<mapsto> PStr ''force_stop_word'',
                ''avg_conf'' \<mapsto> PNum (avg_conf confidence words)] ++ or_empty metadata)
                ''reason'' = Some (PStr ''force_stop_word''))"
proof -
  from assms(3) have "strip text \<noteq> []"
    using tokenize_Nil by auto
  moreover from assms(3,4)
  have "list_ex (\<lambda>t. t \<in> force_stop_words h) (tokenize (strip text))"
    by (auto simp: list_ex_iff)
  ultimately have "handle_transcript r h text confidence words metadata s =
           invoke_all (valid_interruption r) (strip text)
             ([''reason'' \<mapsto> PStr ''force_stop_word'',
               ''avg_conf'' \<mapsto> PNum (avg_conf confidence words)] ++ or_empty metadata) s"
    using assms(1,2) by (simp add: handle_transcript_def Let_def)
  then show ?thesis
    by (simp add: map_add_dom_app_simps)
qed

theorem force_stop_word_interrupts_above_floor_witness:
  "handle_transcript logging_callbacks speaking_handler ''Umm, STOP umm!'' (Some (2 / 5)) None
     None [] = (None, [(''valid_interruption'', Some (PStr ''force_stop_word''))])"
  using force_stop_word_interrupts_above_floor
          [of speaking_handler "Some (2 / 5)" None "''stop''" "''Umm, STOP umm!''"
              logging_callbacks None "[]"]
  by (simp add: strip_examples tokenize_examples logging_callbacks_def speaking_handler_def
      avg_conf_def or_empty_def log_cb_def DEFAULT_FORCE_STOP_WORDS_def)

text \<open>
  Claim C2. The default force-stop set holds the phrase \<^verbatim>\<open>shut up\<close>, and the text
  \<^verbatim>\<open>shut up\<close> arrives while the agent speaks, at full confidence. The tokens are
  \<^verbatim>\<open>shut\<close> and \<^verbatim>\<open>up\<close>; neither is the phrase, so the force-stop branch is not taken
  and the reason handed to the valid-interruption callbacks is \<^verbatim>\<open>mixed_tokens\<close>. By
  \<open>phrase_never_matches\<close> no text can match a phrase that contains a space.
\<close>

theorem shut_up_is_not_a_force_stop:
  "''shut up'' \<in> force_stop_words speaking_handler
   \<and> \<not> list_ex (\<lambda>t. t \<in> force_stop_words speaking_handler) (tokenize (strip ''shut up''))
   \<and> handle_transcript logging_callbacks speaking_handler ''shut up'' None None None []
       = (None, [(''valid_interruption'', Some (PStr ''mixed_tokens''))])"
  by (simp add: handle_transcript_def Let_def strip_examples tokenize_examples
      logging_callbacks_def speaking_handler_def avg_conf_def or_empty_def log_cb_def
      DEFAULT_FORCE_STOP_WORDS_def DEFAULT_IGNORED_WORDS_def)

subsection \<open>Filler-only and mixed utterances\<close>

text \<open>
  Claim C4, as stated, fails on two inputs. A text of three spaces is not empty and has no
  token outside the ignored words, yet no callback runs at all: the method returns once the
  stripped text is empty. And for the text \<^verbatim>\<open>uh umm\<close> with caller metadata that has its
  own \<^verbatim>\<open>"reason"\<close> entry, the ignored-filler callbacks get the caller's reason, not
  \<^verbatim>\<open>filler_only\<close>.
\<close>

theorem filler_only_blank_text_or_overridden:
  "handle_transcript logging_callbacks speaking_handler ''   '' None None None [] = (None, [])
   \<and> handle_transcript logging_callbacks speaking_handler ''uh umm'' None None
         (Some [''reason'' \<mapsto> PStr ''custom'']) []
     = (None, [(''ignored_filler'', Some (PStr ''custom''))])"
  by (simp add: handle_transcript_def Let_def strip_examples tokenize_examples
      logging_callbacks_def speaking_handler_def avg_conf_def or_empty_def log_cb_def
      DEFAULT_FORCE_STOP_WORDS_def DEFAULT_IGNORED_WORDS_def)

text \<open>
  Claim C4, amended. For every transcript event whose text is not empty once stripped,
  processed while the agent is speaking, with average confidence not below
  \<^verbatim>\<open>ignore_if_confidence_below\<close> and no token among the force-stop words: if every token
  is an ignored word, the ignored-filler callbacks, and only those, run on the dictionary
  \<^verbatim>\<open>{reason: filler_only, avg_conf, **metadata}\<close>; otherwise the valid-interruption
  callbacks, and only those, run on
  \<^verbatim>\<open>{reason: mixed_tokens, non_ignored, avg_conf, **metadata}\<close>, where
  \<^verbatim>\<open>non_ignored\<close> is the list of the tokens that are not ignored words, in order. The
  entries \<^verbatim>\<open>reason\<close> and \<^verbatim>\<open>non_ignored\<close> are those of the handler whenever the caller's
  metadata has no entry under the same key.
\<close>

theorem filler_only_ignored_else_mixed_tokens:
  assumes "agent_speaking h"
    and "strip text \<noteq> []"
    and "\<not> avg_conf confidence words < ignore_if_confidence_below h"
    and "\<forall>t \<in> set (tokenize (strip text)). t \<notin> force_stop_words h"
  shows "((\<forall>t \<in> set (tokenize (strip text)). t \<in> ignored_words h) \<longrightarrow>
            handle_transcript r h text confidence words metadata s =
              invoke_all (ignored_filler r) (strip text)
                ([''reason'' \<mapsto> PStr ''filler_only'',
                  ''avg_conf'' \<mapsto> PNum (avg_conf confidence words)] ++ or_empty metadata) s)
         \<and> (\<not> (\<forall>t \<in> set (tokenize (strip text)). t \<in> ignored_words h) \<longrightarrow>
            handle_transcript r h text confidence words metadata s =
              invoke_all (valid_interruption r) (strip text)
                ([''reason'' \<mapsto> PStr ''mixed_tokens'',
                  ''non_ignored'' \<mapsto>
                     PStrList (filter (\<lambda>t. t \<notin> ignored_words h) (tokenize (strip text))),
                  ''avg_conf'' \<mapsto> PNum (avg_conf confidence words)] ++ or_empty metadata) s)
         \<and> (''reason'' \<notin> dom (or_empty metadata) \<longrightarrow>
              ([''reason'' \<mapsto> PStr ''filler_only'',
                ''avg_conf'' \<mapsto> PNum (avg_conf confidence words)] ++ or_empty metadata)
                ''reason'' = Some (PStr ''filler_only'')
              \<and> ([''reason'' \<mapsto> PStr ''mixed_tokens'',
                  ''non_ignored'' \<mapsto>
                     PStrList (filter (\<lambda>t. t \<notin> ignored_words h) (tokenize (strip text))),
                  ''avg_conf'' \<mapsto> PNum (avg_conf confidence words)] ++ or_empty metadata)
                ''reason'' = Some (PStr ''mixed_tokens''))
         \<and> (''non_ignored'' \<notin> dom (or_empty metadata) \<longrightarrow>
              ([''reason'' \<mapsto> PStr ''mixed_tokens'',
                ''non_ignored'' \<mapsto>
                   PStrList (filter (\<lambda>t. t \<notin> ignored_words h) (tokenize (strip text))),
                ''avg_conf'' \<mapsto> PNum (avg_conf confidence words)] ++ or_empty metadata)
                ''non_ignored''
              = Some (PStrList (filter (\<lambda>t. t \<notin> ignored_words h) (tokenize (strip text)))))"
proof -
  from assms(4)
  have nfs: "\<not> list_ex (\<lambda>t. t \<in> force_stop_words h) (tokenize (strip text))"
    by (simp add: list_ex_iff)
  have fe: "filter (\<lambda>t. t \<notin> ignored_words h) (tokenize (strip text)) = []
              \<longleftrightarrow> (\<forall>t \<in> set (tokenize (strip text)). t \<in> ignored_words h)"
    by (simp add: filter_empty_conv)
  have branch: "handle_transcript r h text confidence words metadata s =
      (if filter (\<lambda>t. t \<notin> ignored_words h) (tokenize (strip text)) = [] then
         invoke_all (ignored_filler r) (strip text)
           ([''reason'' \<mapsto> PStr ''filler_only'',
             ''avg_conf'' \<mapsto> PNum (avg_conf confidence words)] ++ or_empty metadata) s
       else
         invoke_all (valid_interruption r) (strip text)
           ([''reason'' \<mapsto> PStr ''mixed_tokens'',
             ''non_ignored'' \<mapsto>
                PStrList (filter (\<lambda>t. t \<notin> ignored_words h) (tokenize (strip text))),
             ''avg_conf'' \<mapsto> PNum (avg_conf confidence words)] ++ or_empty metadata) s)"
    using assms(1,2,3) nfs by (simp add: handle_transcript_def Let_def)
  show ?thesis
    unfolding branch fe by (simp add: map_add_dom_app_simps)
qed

theorem filler_only_ignored_else_mixed_tokens_witness:
  "handle_transcript logging_callbacks speaking_handler ''uh umm'' (Some 1) None None []
     = (None, [(''ignored_filler'', Some (PStr ''filler_only''))])
   \<and> handle_transcript logging_callbacks speaking_handler '' uh I need help '' (Some (9 / 10))
         None None []
     = (None, [(''valid_interruption'', Some (PStr ''mixed_tokens''))])"
  using filler_only_ignored_else_mixed_tokens
          [of speaking_handler "''uh umm''" "Some 1" None logging_callbacks None "[]"]
        filler_only_ignored_else_mixed_tokens
          [of speaking_handler "'' uh I need help ''" "Some (9 / 10)" None logging_callbacks
              None "[]"]
  by (simp add: strip_examples tokenize_examples logging_callbacks_def speaking_handler_def
      avg_conf_def or_empty_def log_cb_def DEFAULT_FORCE_STOP_WORDS_def
      DEFAULT_IGNORED_WORDS_def)

text \<open>The tokens reported for \<^verbatim>\<open>uh I need help\<close> are \<^verbatim>\<open>i\<close>, \<^verbatim>\<open>need\<close>, \<^verbatim>\<open>help\<close>.\<close>

lemma non_ignored_example:
  "reaction_of speaking_handler '' uh I need help '' (Some (9 / 10)) None None
     = Some (ValidInterruption,
             [''reason'' \<mapsto> PStr ''mixed_tokens'',
              ''non_ignored'' \<mapsto> PStrList [''i'', ''need'', ''help''],
              ''avg_conf'' \<mapsto> PNum (9 / 10)])"
  by (simp add: reaction_of_def Let_def strip_examples tokenize_examples speaking_handler_def
      avg_conf_def or_empty_def DEFAULT_FORCE_STOP_WORDS_def DEFAULT_IGNORED_WORDS_def)

subsection \<open>The confidence floor\<close>

text \<open>
  Claim C5, as stated, fails on two inputs, both with confidence 0.2 under the floor 0.4. A
  text of three spaces is not empty, yet no callback runs. And for the text \<^verbatim>\<open>hello\<close>
  with caller metadata that has its own \<^verbatim>\<open>"reason"\<close> entry, the ignored-filler callbacks
  get the caller's reason, not \<^verbatim>\<open>low_confidence\<close>.
\<close>

theorem low_confidence_blank_text_or_overridden:
  "handle_transcript logging_callbacks speaking_handler ''   '' (Some (1 / 5)) None None []
     = (None, [])
   \<and> handle_transcript logging_callbacks speaking_handler ''hello'' (Some (1 / 5)) None
         (Some [''reason'' \<mapsto> PStr ''custom'']) []
     = (None, [(''ignored_filler'', Some (PStr ''custom''))])"
  by (simp add: handle_transcript_def Let_def strip_examples tokenize_examples
      logging_callbacks_def speaking_handler_def avg_conf_def or_empty_def log_cb_def)

text \<open>
  Claim C5, amended. For every transcript event whose text is not empty once stripped,
  processed while the agent is speaking: if the average confidence is strictly below
  \<^verbatim>\<open>ignore_if_confidence_below\<close>, the ignored-filler callbacks, and only those, run on the
  dictionary \<^verbatim>\<open>{reason: low_confidence, avg_conf, **metadata}\<close>, whatever the tokens are;
  if the average confidence equals \<^verbatim>\<open>ignore_if_confidence_below\<close>, the event is not
  ignored as low confidence: the method goes on to the force-stop test and then to the
  filler test, and dispatches what they decide, whatever the metadata is. Below the floor
  the reason in the dictionary is \<^verbatim>\<open>low_confidence\<close> whenever the caller's metadata has
  no \<^verbatim>\<open>"reason"\<close> entry of its own.
\<close>

theorem low_confidence_ignored_strictly_below_floor:
  assumes "agent_speaking h"
    and "strip text \<noteq> []"
  shows "(avg_conf confidence words < ignore_if_confidence_below h \<longrightarrow>
            handle_transcript r h text confidence words metadata s =
              invoke_all (ignored_filler r) (strip text)
                ([''reason'' \<mapsto> PStr ''low_confidence'',
                  ''avg_conf'' \<mapsto> PNum (avg_conf confidence words)] ++ or_empty metadata) s
            \<and> (''reason'' \<notin> dom (or_empty metadata) \<longrightarrow>
                 ([''reason'' \<mapsto> PStr ''low_confidence'',
                   ''avg_conf'' \<mapsto> PNum (avg_conf confidence words)] ++ or_empty metadata)
                   ''reason'' = Some (PStr ''low_confidence'')))
         \<and> (avg_conf confidence words = ignore_if_confidence_below h \<longrightarrow>
              handle_transcript r h text confidence words metadata s =
                (if list_ex (\<lambda>t. t \<in> force_stop_words h) (tokenize (strip text)) then
                   invoke_all (valid_interruption r) (strip text)
                     ([''reason'' \<mapsto> PStr ''force_stop_word'',
                       ''avg_conf'' \<mapsto> PNum (avg_conf confidence words)]
                        ++ or_empty metadata) s
                 else if filter (\<lambda>t. t \<notin> ignored_words h) (tokenize (strip text)) = [] then
                   invoke_all (ignored_filler r) (strip text)
                     ([''reason'' \<mapsto> PStr ''filler_only'',
                       ''avg_conf'' \<mapsto> PNum (avg_conf confidence words)]
                        ++ or_empty metadata) s
                 else
                   invoke_all (valid_interruption r) (strip text)
                     ([''reason'' \<mapsto> PStr ''mixed_tokens'',
                       ''non_ignored'' \<mapsto>
                          PStrList (filter (\<lambda>t. t \<notin> ignored_words h)
                                      (tokenize (strip text))),
                       ''avg_conf'' \<mapsto> PNum (avg_conf confidence words)]
                        ++ or_empty metadata) s))"
proof (intro conjI impI)
  assume "avg_conf confidence words < ignore_if_confidence_below h"
  with assms show "handle_transcript r h text confidence words metadata s =
              invoke_all (ignored_filler r) (strip text)
                ([''reason'' \<mapsto> PStr ''low_confidence'',
                  ''avg_conf'' \<mapsto> PNum (avg_conf confidence words)] ++ or_empty metadata) s"
    by (simp add: handle_transcript_def Let_def)
next
  assume "''reason'' \<notin> dom (or_empty metadata)"
  then show "([''reason'' \<mapsto> PStr ''low_confidence'',
               ''avg_conf'' \<mapsto> PNum (avg_conf confidence words)] ++ or_empty metadata)
               ''reason'' = Some (PStr ''low_confidence'')"
    by (simp add: map_add_dom_app_simps)
next
  assume eq: "avg_conf confidence words = ignore_if_confidence_below h"
  then have "\<not> avg_conf confidence words < ignore_if_confidence_below h"
    by simp
  with assms
  show "handle_transcript r h text confidence words metadata s =
          (if list_ex (\<lambda>t. t \<in> force_stop_words h) (tokenize (strip text)) then
             invoke_all (valid_interruption r) (strip text)
               ([''reason'' \<mapsto> PStr ''force_stop_word'',
                 ''avg_conf'' \<mapsto> PNum (avg_conf confidence words)]
                  ++ or_empty metadata) s
           else if filter (\<lambda>t. t \<notin> ignored_words h) (tokenize (strip text)) = [] then
             invoke_all (ignored_filler r) (strip text)
               ([''reason'' \<mapsto> PStr ''filler_only'',
                 ''avg_conf'' \<mapsto> PNum (avg_conf confidence words)]
                  ++ or_empty metadata) s
           else
             invoke_all (valid_interruption r) (strip text)
               ([''reason'' \<mapsto> PStr ''mixed_tokens'',
                 ''non_ignored'' \<mapsto>
                    PStrList (filter (\<lambda>t. t \<notin> ignored_words h)
                                (tokenize (strip text))),
                 ''avg_conf'' \<mapsto> PNum (avg_conf confidence words)]
                  ++ or_empty metadata) s)"
    by (simp add: handle_transcript_def Let_def)
qed

theorem low_confidence_ignored_strictly_below_floor_witness:
  "handle_transcript logging_callbacks speaking_handler ''stop'' (Some (1 / 5)) None None []
     = (None, [(''ignored_filler'', Some (PStr ''low_confidence''))])
   \<and> handle_transcript logging_callbacks speaking_handler ''stop'' (Some (2 / 5)) None None []
     = (None, [(''valid_interruption'', Some (PStr ''force_stop_word''))])"
proof -
  have sp: "agent_speaking speaking_handler" and ne: "strip ''stop'' \<noteq> []"
    by (simp_all add: speaking_handler_def strip_examples)
  note below = low_confidence_ignored_strictly_below_floor
                 [OF sp ne, of "Some (1 / 5)" None logging_callbacks None "[]"]
  note at = low_confidence_ignored_strictly_below_floor
              [OF sp ne, of "Some (2 / 5)" None logging_callbacks None "[]"]
  have "handle_transcript logging_callbacks speaking_handler ''stop'' (Some (1 / 5)) None None []
          = (None, [(''ignored_filler'', Some (PStr ''low_confidence''))])"
    using below
    by (simp add: strip_examples logging_callbacks_def speaking_handler_def avg_conf_def
        or_empty_def log_cb_def)
  moreover
  have "handle_transcript logging_callbacks speaking_handler ''stop'' (Some (2 / 5)) None None []
          = (None, [(''valid_interruption'', Some (PStr ''force_stop_word''))])"
    using at
    by (simp add: strip_examples tokenize_examples logging_callbacks_def speaking_handler_def
        avg_conf_def or_empty_def log_cb_def DEFAULT_FORCE_STOP_WORDS_def)
  ultimately show ?thesis by blast
qed

text \<open>At the floor exactly, 0.4, the text \<^verbatim>\<open>hello\<close> interrupts.\<close>

lemma at_floor_example:
  "handle_transcript logging_callbacks speaking_handler ''hello'' (Some (2 / 5)) None None []
     = (None, [(''valid_interruption'', Some (PStr ''mixed_tokens''))])"
  by (simp add: handle_transcript_def Let_def strip_examples tokenize_examples
      logging_callbacks_def speaking_handler_def avg_conf_def or_empty_def log_cb_def
      DEFAULT_FORCE_STOP_WORDS_def DEFAULT_IGNORED_WORDS_def)

subsection \<open>Callbacks that raise\<close>

text \<open>
  Claim C3, as stated: when one callback raises, the others registered for the outcome still
  run and the exception stays inside \<^verbatim>\<open>handle_transcript\<close>. With two speech-registered
  callbacks, the first of which raises, the exception comes out of the method and the
  second callback has not run: the log is empty.
\<close>

theorem raising_callback_stops_dispatch:
  "handle_transcript faulty_callbacks (set_agent_speaking False speaking_handler) ''hello''
     None None None [] = (Some (PyException ''boom''), [])"
  by (simp add: handle_transcript_def Let_def strip_examples tokenize_examples
      faulty_callbacks_def speaking_handler_def set_agent_speaking_def avg_conf_def
      or_empty_def log_cb_def raising_cb_def)

text \<open>
  Claim C3, amended. For every dispatch of a decision's reactions, if one registered callback
  raises, the callbacks registered before it for that outcome have been invoked, those
  registered after it are not invoked, and the exception propagates out of
  \<^verbatim>\<open>handle_transcript\<close>. The method itself writes nothing: the state after the call,
  \<^verbatim>\<open>agent_speaking\<close> included, is the state the raising callback left, so a later transcript
  event can still be handed to the method.
\<close>

theorem raising_callback_propagates:
  assumes "reaction_of h text confidence words metadata = Some (k, d)"
    and "registered r k = pre @ c # post"
    and "invoke_all pre (strip text) d s = (None, s1)"
    and "c (strip text) d s1 = (Some e, s2)"
  shows "handle_transcript r h text confidence words metadata s = (Some e, s2)
         \<and> handle_transcript r h text confidence words metadata s =
             invoke_all (pre @ [c]) (strip text) d s"
  using assms by (simp add: handle_transcript_reaction invoke_all_append)

theorem raising_callback_propagates_witness:
  "handle_transcript faulty_callbacks speaking_handler ''uh umm'' None None None []
     = (Some (PyException ''boom''), [(''first'', Some (PStr ''filler_only''))])"
  using raising_callback_propagates
          [of speaking_handler "''uh umm''" None None None IgnoredFiller
              "[''reason'' \<mapsto> PStr ''filler_only'', ''avg_conf'' \<mapsto> PNum 1]"
              faulty_callbacks "[log_cb ''first'']" "raising_cb ''boom''" "[log_cb ''third'']"
              "[]" "[(''first'', Some (PStr ''filler_only''))]" "PyException ''boom''"
              "[(''first'', Some (PStr ''filler_only''))]"]
  by (simp add: reaction_of_def Let_def strip_examples tokenize_examples faulty_callbacks_def
      speaking_handler_def avg_conf_def or_empty_def log_cb_def raising_cb_def
      DEFAULT_FORCE_STOP_WORDS_def DEFAULT_IGNORED_WORDS_def)

subsection \<open>The interruption reaction of the session wiring\<close>

text \<open>The callbacks of the wiring change nothing, and the coroutine body leaves the handler.\<close>

lemma session_callbacks_no_effect:
  "handle_transcript (session_callbacks ident) h text confidence words metadata s = (None, s)"
  by (simp add: handle_transcript_def Let_def session_callbacks_def on_speech_registered_def
      on_ignored_filler_def on_valid_interruption_def no_callbacks_def debug_lambda_def
      interruption_lambda_def)

lemma handle_interruption_keeps_handler:
  "handler_state (handle_interruption ident text meta s) = handler_state s"
  by (simp add: handle_interruption_def split: option.splits)

text \<open>
  Claim C8. The agent of \<^verbatim>\<open>alice\<close> is speaking and the transcript \<^verbatim>\<open>stop\<close> arrives
  with confidence 1. The decision is a valid interruption by a force-stop word, and the
  registered reaction completes without an exception; afterwards the handler's
  \<^verbatim>\<open>agent_speaking\<close> is still true. It stays true even when the coroutine the reaction
  created is run to its end: \<^verbatim>\<open>stop_speaking\<close> clears the agent's own
  \<^verbatim>\<open>_is_speaking\<close> and never calls \<^verbatim>\<open>set_agent_speaking(False)\<close> on the handler.
\<close>

theorem interruption_leaves_agent_speaking:
  "reaction_of (handler_state speaking_session) ''stop'' (Some 1) None None
     = Some (ValidInterruption,
             [''reason'' \<mapsto> PStr ''force_stop_word'', ''avg_conf'' \<mapsto> PNum 1])
   \<and> handle_transcript (session_callbacks ''alice'') (handler_state speaking_session) ''stop''
         (Some 1) None None speaking_session = (None, speaking_session)
   \<and> agent_speaking (handler_state speaking_session)
   \<and> agent_speaking
         (handler_state
            (handle_interruption ''alice'' ''stop''
               [''reason'' \<mapsto> PStr ''force_stop_word'', ''avg_conf'' \<mapsto> PNum 1]
               speaking_session))
   \<and> map_option is_speaking
         (agents
            (handle_interruption ''alice'' ''stop''
               [''reason'' \<mapsto> PStr ''force_stop_word'', ''avg_conf'' \<mapsto> PNum 1]
               speaking_session) ''alice'') = Some False"
  by (simp add: session_callbacks_no_effect handle_interruption_keeps_handler
      handle_interruption_def stop_speaking_def reaction_of_def Let_def strip_examples
      tokenize_examples speaking_session_def session_handler_def set_agent_speaking_def
      avg_conf_def or_empty_def)

subsection \<open>Updates of the word sets during a call\<close>



subsection \<open>Default vocabularies\<close>

text \<open>
  Claim C10, as stated: no empty iterable gives an empty vocabulary. An iterator that yields
  nothing does: it is truthy, so the defaults are not taken, and both vocabularies are
  empty.
\<close>

theorem init_empty_iterator_empty_vocabulary:
  "(case init (Some (Iterator [])) (Some (Iterator [])) (1 / 2) (2 / 5) of
      Inl e \<Rightarrow> False
    | Inr h \<Rightarrow> ignored_words h = {} \<and> force_stop_words h = {})"
  by (simp add: init_def lowered_or_default_def)

text \<open>
  Claim C10, amended. Constructing a handler with an empty sized container (an empty list,
  tuple or set, which is falsy) for \<^verbatim>\<open>ignored_words\<close> or \<^verbatim>\<open>force_stop_words\<close> does not
  yield an empty vocabulary: the argument is treated like an absent one and the builtin
  default word set is installed.
\<close>

theorem init_empty_container_installs_defaults:
  assumes "init ig fs m i = Inr h"
  shows "(ig = None \<or> ig = Some (Container []) \<longrightarrow>
            ignored_words h = DEFAULT_IGNORED_WORDS \<and> ignored_words h \<noteq> {})
         \<and> (fs = None \<or> fs = Some (Container []) \<longrightarrow>
            force_stop_words h = DEFAULT_FORCE_STOP_WORDS \<and> force_stop_words h \<noteq> {})"
proof -
  have "DEFAULT_IGNORED_WORDS \<noteq> {}" "DEFAULT_FORCE_STOP_WORDS \<noteq> {}"
    by (simp_all add: DEFAULT_IGNORED_WORDS_def DEFAULT_FORCE_STOP_WORDS_def)
  with assms show ?thesis
    by (auto simp: init_def lowered_or_default_def lower_default_ignored
        lower_default_force_stop)
qed

theorem init_empty_container_installs_defaults_witness:
  "\<exists>h. init (Some (Container [])) (Some (Container [])) (1 / 2) (2 / 5) = Inr h
        \<and> ignored_words h = DEFAULT_IGNORED_WORDS \<and> ignored_words h \<noteq> {}
        \<and> force_stop_words h = DEFAULT_FORCE_STOP_WORDS \<and> force_stop_words h \<noteq> {}"
proof -
  obtain h where h: "init (Some (Container [])) (Some (Container [])) (1 / 2) (2 / 5) = Inr h"
    by (simp add: init_def)
  from init_empty_container_installs_defaults [OF h] h show ?thesis
    by blast
qed

end
